theory Spec2Isabelle
  imports Main "HOL-Library.AList"
begin

section \<open>JavaScript numbers\<close>

text \<open>
  The tracker computes hours, rates and money with JavaScript numbers, that is IEEE-754
  binary64 values. A finite value is kept as an exact fraction \<open>Fin p q\<close> (numerator,
  positive denominator, lowest terms; for a double the denominator is a power of two).
  Every arithmetic operation forms the exact result as a fraction of integers and rounds
  it with \<open>fl\<close> to the nearest double, ties to even, with gradual underflow and overflow
  to the infinities. Negative zero is identified with zero: the program never divides by
  a variable and never inspects the sign of a zero.
\<close>

datatype jsnum = NaN | PInf | NInf | Fin int int

function bitlen :: "int \<Rightarrow> int" where
  "bitlen n = (if n \<le> 0 then 0 else 1 + bitlen (n div 2))"
  by pat_completeness auto
termination
  by (relation "measure nat") auto

declare bitlen.simps [simp del]

function reduce2 :: "int \<Rightarrow> int \<Rightarrow> int \<times> int" where
  "reduce2 n d = (if even n \<and> even d \<and> 1 < d then reduce2 (n div 2) (d div 2) else (n, d))"
  by pat_completeness auto
termination
  by (relation "measure (\<lambda>(n, d). nat d)") auto

declare reduce2.simps [simp del]

definition floor_log2 :: "int \<Rightarrow> int \<Rightarrow> int" where
  \<comment> \<open>\<open>\<lfloor>log\<^sub>2 (a / q)\<rfloor>\<close> for positive \<open>a\<close> and \<open>q\<close>\<close>
  "floor_log2 a q =
     (let d = bitlen a - bitlen q
      in if (if 0 \<le> d then q * 2 ^ nat d \<le> a else q \<le> a * 2 ^ nat (- d)) then d else d - 1)"

definition round_half_even :: "int \<Rightarrow> int \<Rightarrow> int" where
  \<comment> \<open>the integer nearest to \<open>n / d\<close>, the even one of two\<close>
  "round_half_even n d =
     (let f = n div d; r = n mod d
      in if 2 * r < d then f else if d < 2 * r then f + 1 else if even f then f else f + 1)"

definition fl :: "int \<Rightarrow> int \<Rightarrow> jsnum" where
  \<comment> \<open>the double nearest to \<open>p / q\<close>, for \<open>0 < q\<close>\<close>
  "fl p q =
     (if p = 0 then Fin 0 1
      else let a = \<bar>p\<bar>;
               s = max (floor_log2 a q) (- 1022) - 52;
               n = (if 0 \<le> s then round_half_even a (q * 2 ^ nat s)
                    else round_half_even (a * 2 ^ nat (- s)) q)
           in if 0 \<le> s then
                (if 2 ^ 1024 \<le> n * 2 ^ nat s then (if 0 < p then PInf else NInf)
                 else Fin ((if 0 < p then n else - n) * 2 ^ nat s) 1)
              else (case reduce2 n (2 ^ nat (- s)) of
                      (n', d') \<Rightarrow> Fin (if 0 < p then n' else - n') d'))"

definition num_of_int :: "int \<Rightarrow> jsnum" where
  "num_of_int k = fl k 1"

fun fadd :: "jsnum \<Rightarrow> jsnum \<Rightarrow> jsnum" where
  "fadd (Fin a b) (Fin c d) = fl (a * d + c * b) (b * d)"
| "fadd NaN _ = NaN"
| "fadd _ NaN = NaN"
| "fadd PInf NInf = NaN"
| "fadd NInf PInf = NaN"
| "fadd PInf _ = PInf"
| "fadd NInf _ = NInf"
| "fadd _ PInf = PInf"
| "fadd _ NInf = NInf"

fun fmul :: "jsnum \<Rightarrow> jsnum \<Rightarrow> jsnum" where
  "fmul (Fin a b) (Fin c d) = fl (a * c) (b * d)"
| "fmul NaN _ = NaN"
| "fmul _ NaN = NaN"
| "fmul PInf (Fin c d) = (if c = 0 then NaN else if 0 < c then PInf else NInf)"
| "fmul NInf (Fin c d) = (if c = 0 then NaN else if 0 < c then NInf else PInf)"
| "fmul (Fin a b) PInf = (if a = 0 then NaN else if 0 < a then PInf else NInf)"
| "fmul (Fin a b) NInf = (if a = 0 then NaN else if 0 < a then NInf else PInf)"
| "fmul PInf PInf = PInf"
| "fmul NInf NInf = PInf"
| "fmul PInf NInf = NInf"
| "fmul NInf PInf = NInf"

fun fdiv :: "jsnum \<Rightarrow> jsnum \<Rightarrow> jsnum" where
  "fdiv (Fin a b) (Fin c d) =
     (if c = 0 then (if a = 0 then NaN else if 0 < a then PInf else NInf)
      else fl (if 0 < c then a * d else - (a * d)) (b * \<bar>c\<bar>))"
| "fdiv NaN _ = NaN"
| "fdiv _ NaN = NaN"
| "fdiv PInf (Fin c d) = (if 0 \<le> c then PInf else NInf)"
| "fdiv NInf (Fin c d) = (if 0 \<le> c then NInf else PInf)"
| "fdiv (Fin a b) _ = Fin 0 1"
| "fdiv _ _ = NaN"

fun truthy :: "jsnum \<Rightarrow> bool" where
  "truthy (Fin p q) = (p \<noteq> 0)"
| "truthy NaN = False"
| "truthy _ = True"

definition num_or :: "jsnum \<Rightarrow> jsnum \<Rightarrow> jsnum" where
  \<comment> \<open>\<open>a || b\<close> on numbers\<close>
  "num_or a b = (if truthy a then a else b)"

definition toFixed2 :: "jsnum \<Rightarrow> jsnum" where
  \<comment> \<open>\<open>+x.toFixed(2)\<close>: the decimal with two places nearest to the exact value of \<open>x\<close>
      (the larger in magnitude of two), read back as a number\<close>
  "toFixed2 x =
     (case x of
        Fin p q \<Rightarrow>
          if 10 ^ 21 * q \<le> \<bar>p\<bar> then Fin p q
          else let n = (\<bar>p\<bar> * 200 + q) div (2 * q)
               in fl (if p < 0 then - n else n) 100
      | _ \<Rightarrow> x)"

definition hoursFromMs :: "int \<Rightarrow> jsnum" where
  "hoursFromMs ms = toFixed2 (fdiv (fdiv (num_of_int ms) (Fin 1000 1)) (Fin 3600 1))"

section \<open>Data model\<close>

text \<open>
  Instants and durations are integer epoch milliseconds, as \<open>Date.now()\<close> and
  \<open>getTime()\<close> of a valid date deliver them. An optional field is an \<open>option\<close>.
\<close>

type_synonym ID = string

record Client =
  c_id :: ID
  c_name :: string
  c_email :: "string option"
  c_rate :: "jsnum option"
  c_color :: "string option"
  c_active :: bool

record Project =
  p_id :: ID
  p_clientId :: ID
  p_name :: string
  p_rate :: "jsnum option"
  p_color :: "string option"
  p_archived :: bool

record TimeEntry =
  e_id :: ID
  e_clientId :: ID
  e_projectId :: ID
  e_start :: int
  e_end :: "int option"
  e_durationMs :: int
  e_notes :: "string option"
  e_tags :: "string list option"
  e_billable :: bool

datatype InvoiceStatus = Draft | Sent | Paid | Overdue

record LineItem =
  l_projectId :: ID
  l_description :: string
  l_hours :: jsnum
  l_rate :: jsnum
  l_amount :: jsnum

record Invoice =
  i_id :: ID
  i_number :: string
  i_clientId :: ID
  i_date :: string
  i_dueDate :: "string option"
  i_taxRate :: "jsnum option"
  i_status :: InvoiceStatus
  i_lineItems :: "LineItem list"
  i_subtotal :: jsnum
  i_tax :: jsnum
  i_total :: jsnum

record Timer =
  t_clientId :: "ID option"
  t_projectId :: "ID option"
  t_notes :: "string option"
  t_billable :: bool
  t_start :: int

record AppState =
  clients :: "Client list"
  projects :: "Project list"
  entries :: "TimeEntry list"
  invoices :: "Invoice list"
  runningTimer :: "Timer option"

datatype Action =
    INIT "Client list" "Project list" "TimeEntry list" "Invoice list" "Timer option option"
  | ADD_CLIENT Client
  | UPDATE_CLIENT Client
  | DELETE_CLIENT ID
  | ADD_PROJECT Project
  | UPDATE_PROJECT Project
  | DELETE_PROJECT ID
  | ADD_ENTRY TimeEntry
  | UPDATE_ENTRY TimeEntry
  | DELETE_ENTRY ID
  | START_TIMER Timer
  | STOP_TIMER int
  | RESET_TIMER
  | ADD_INVOICE Invoice
  | UPDATE_INVOICE Invoice
  | DELETE_INVOICE ID

definition id_given :: "ID option \<Rightarrow> bool" where
  \<comment> \<open>truthiness of an optional string: \<open>undefined\<close> and \<open>""\<close> are falsy\<close>
  "id_given x = (case x of None \<Rightarrow> False | Some s \<Rightarrow> s \<noteq> [])"

definition str_or :: "string option \<Rightarrow> string \<Rightarrow> string" where
  \<comment> \<open>\<open>x || d\<close> on an optional string\<close>
  "str_or x d = (case x of None \<Rightarrow> d | Some s \<Rightarrow> if s = [] then d else s)"

section \<open>The reducer\<close>

text \<open>
  \<open>uid\<close> draws on \<open>Math.random()\<close> and the clock; the identifier it returns for the
  entry of a stopped timer is the first argument of \<open>reducer\<close>.
\<close>

fun reducer :: "ID \<Rightarrow> AppState \<Rightarrow> Action \<Rightarrow> AppState" where
  "reducer uid state (INIT cs ps es is rt) =
     (case rt of
        None \<Rightarrow> state\<lparr>clients := cs, projects := ps, entries := es, invoices := is\<rparr>
      | Some t \<Rightarrow> state\<lparr>clients := cs, projects := ps, entries := es, invoices := is,
                         runningTimer := t\<rparr>)"
| "reducer uid state (ADD_CLIENT c) = state\<lparr>clients := c # clients state\<rparr>"
| "reducer uid state (UPDATE_CLIENT c) =
     state\<lparr>clients := map (\<lambda>x. if c_id x = c_id c then c else x) (clients state)\<rparr>"
| "reducer uid state (DELETE_CLIENT k) =
     state\<lparr>projects := filter (\<lambda>p. p_clientId p \<noteq> k) (projects state),
            entries := filter (\<lambda>e. e_clientId e \<noteq> k) (entries state),
            clients := filter (\<lambda>c. c_id c \<noteq> k) (clients state)\<rparr>"
| "reducer uid state (ADD_PROJECT p) = state\<lparr>projects := p # projects state\<rparr>"
| "reducer uid state (UPDATE_PROJECT p) =
     state\<lparr>projects := map (\<lambda>x. if p_id x = p_id p then p else x) (projects state)\<rparr>"
| "reducer uid state (DELETE_PROJECT k) =
     state\<lparr>entries := filter (\<lambda>e. e_projectId e \<noteq> k) (entries state),
            projects := filter (\<lambda>p. p_id p \<noteq> k) (projects state)\<rparr>"
| "reducer uid state (ADD_ENTRY e) = state\<lparr>entries := e # entries state\<rparr>"
| "reducer uid state (UPDATE_ENTRY e) =
     state\<lparr>entries := map (\<lambda>x. if e_id x = e_id e then e else x) (entries state)\<rparr>"
| "reducer uid state (DELETE_ENTRY k) =
     state\<lparr>entries := filter (\<lambda>e. e_id e \<noteq> k) (entries state)\<rparr>"
| "reducer uid state (START_TIMER t) = state\<lparr>runningTimer := Some t\<rparr>"
| "reducer uid state (STOP_TIMER end) =
     (case runningTimer state of
        None \<Rightarrow> state
      | Some t \<Rightarrow>
          let entry = \<lparr>e_id = uid,
                       e_clientId = str_or (t_clientId t) ''unassigned_client'',
                       e_projectId = str_or (t_projectId t) ''unassigned_project'',
                       e_start = t_start t,
                       e_end = Some end,
                       e_durationMs = max 0 (end - t_start t),
                       e_notes = t_notes t,
                       e_tags = Some [],
                       e_billable = t_billable t\<rparr>
          in state\<lparr>runningTimer := None, entries := entry # entries state\<rparr>)"
| "reducer uid state RESET_TIMER = state\<lparr>runningTimer := None\<rparr>"
| "reducer uid state (ADD_INVOICE i) = state\<lparr>invoices := i # invoices state\<rparr>"
| "reducer uid state (UPDATE_INVOICE i) =
     state\<lparr>invoices := map (\<lambda>x. if i_id x = i_id i then i else x) (invoices state)\<rparr>"
| "reducer uid state (DELETE_INVOICE k) =
     state\<lparr>invoices := filter (\<lambda>i. i_id i \<noteq> k) (invoices state)\<rparr>"

section \<open>Timer intents\<close>

text \<open>
  The handlers of the page read the current state, decide, and dispatch one action; here
  they take the state and return the state after the dispatch.
\<close>

definition startTimer ::
  "ID \<Rightarrow> ID option \<Rightarrow> ID option \<Rightarrow> string \<Rightarrow> bool \<Rightarrow> int \<Rightarrow> AppState \<Rightarrow> AppState" where
  "startTimer uid selClient selProject notes billable now state =
     (if runningTimer state \<noteq> None then state
      else reducer uid state
             (START_TIMER \<lparr>t_clientId = selClient, t_projectId = selProject,
                            t_notes = Some notes, t_billable = billable, t_start = now\<rparr>))"

definition stopTimer :: "ID \<Rightarrow> int \<Rightarrow> AppState \<Rightarrow> AppState" where
  "stopTimer uid now state =
     (if runningTimer state = None then state else reducer uid state (STOP_TIMER now))"

definition resetTimer :: "ID \<Rightarrow> AppState \<Rightarrow> AppState" where
  "resetTimer uid state = reducer uid state RESET_TIMER"

section \<open>Editing an entry\<close>




section \<open>Rates\<close>

text \<open>
  \<open>clientMap\<close> and \<open>projectMap\<close> are ECMAScript maps built from the collections:
  entries in order of first insertion, a later value under the same key replacing the
  earlier one. They are association lists here, \<open>map.set\<close> being \<open>AList.update\<close> and
  \<open>map.get\<close> being \<open>map_of\<close>.
\<close>

definition clientMap :: "Client list \<Rightarrow> (ID \<times> Client) list" where
  "clientMap cs = fold (\<lambda>c m. AList.update (c_id c) c m) cs []"

definition projectMap :: "Project list \<Rightarrow> (ID \<times> Project) list" where
  "projectMap ps = fold (\<lambda>p m. AList.update (p_id p) p m) ps []"

definition opt_truthy :: "jsnum option \<Rightarrow> bool" where
  "opt_truthy x = (case x of None \<Rightarrow> False | Some r \<Rightarrow> truthy r)"

definition projectRate :: "Project list \<Rightarrow> ID \<Rightarrow> jsnum option" where
  \<comment> \<open>\<open>projectMap.get(projectId)?.rate\<close>\<close>
  "projectRate ps k = Option.bind (map_of (projectMap ps) k) p_rate"

definition clientRate :: "Client list \<Rightarrow> ID \<Rightarrow> jsnum option" where
  \<comment> \<open>\<open>clientMap.get(clientId)?.rate\<close>\<close>
  "clientRate cs k = Option.bind (map_of (clientMap cs) k) c_rate"

definition rateFor :: "Client list \<Rightarrow> Project list \<Rightarrow> ID option \<Rightarrow> ID option \<Rightarrow> jsnum" where
  "rateFor cs ps projectId clientId =
     (if id_given projectId \<and> opt_truthy (projectRate ps (the projectId))
      then the (projectRate ps (the projectId))
      else if id_given clientId \<and> opt_truthy (clientRate cs (the clientId))
      then the (clientRate cs (the clientId))
      else Fin 0 1)"

section \<open>Date ranges\<close>

text \<open>
  The bounds of a range are instants or one of the two infinities. \<open>getTime\<close> stands for
  \<open>new Date(s).getTime()\<close> on the value of a \<open>date\<close> control, which is empty or a
  well-formed calendar date and then denotes the first millisecond of that day (UTC).
\<close>

datatype bound = MinusInfinity | At int | PlusInfinity

fun ge_bound :: "int \<Rightarrow> bound \<Rightarrow> bool" where
  "ge_bound x MinusInfinity = True"
| "ge_bound x (At t) = (t \<le> x)"
| "ge_bound x PlusInfinity = False"

fun le_bound :: "int \<Rightarrow> bound \<Rightarrow> bool" where
  "le_bound x MinusInfinity = False"
| "le_bound x (At t) = (x \<le> t)"
| "le_bound x PlusInfinity = True"

definition rangeFrom :: "(string \<Rightarrow> int) \<Rightarrow> string \<Rightarrow> bound" where
  "rangeFrom getTime fromDate = (if fromDate \<noteq> [] then At (getTime fromDate) else MinusInfinity)"

definition rangeTo :: "(string \<Rightarrow> int) \<Rightarrow> string \<Rightarrow> bound" where
  "rangeTo getTime toDate =
     (if toDate \<noteq> [] then At (getTime toDate + 24 * 3600 * 1000 - 1) else PlusInfinity)"

definition end_or_start :: "TimeEntry \<Rightarrow> int" where
  \<comment> \<open>\<open>e.end ?? e.start\<close>\<close>
  "end_or_start e = (case e_end e of None \<Rightarrow> e_start e | Some x \<Rightarrow> x)"

definition filteredEntries :: "(string \<Rightarrow> int) \<Rightarrow> string \<Rightarrow> string \<Rightarrow> TimeEntry list \<Rightarrow> TimeEntry list" where
  "filteredEntries getTime fromDate toDate es =
     (let from = rangeFrom getTime fromDate; to = rangeTo getTime toDate
      in filter (\<lambda>e. ge_bound (e_start e) from \<and> le_bound (end_or_start e) to) es)"

definition invoiceEntries ::
  "(string \<Rightarrow> int) \<Rightarrow> ID option \<Rightarrow> string \<Rightarrow> string \<Rightarrow> TimeEntry list \<Rightarrow> TimeEntry list" where
  "invoiceEntries getTime invoiceClient invoiceFrom invoiceTo es =
     (if \<not> id_given invoiceClient then []
      else let from = rangeFrom getTime invoiceFrom; to = rangeTo getTime invoiceTo
           in filter (\<lambda>e. e_clientId e = the invoiceClient \<and> e_billable e
                          \<and> ge_bound (e_start e) from \<and> le_bound (end_or_start e) to) es)"

section \<open>Loading the persisted state\<close>

text \<open>
  \<open>loadState\<close> returns what \<open>JSON.parse\<close> delivers, cast to \<open>AppState\<close> without any
  check, so the loaded value is modelled as the untyped JSON value it is. An object is
  the list of its properties, read with \<open>map_of\<close>; the order of the properties is that of
  insertion and is not otherwise meaningful here. \<open>JSON.parse\<close> is a parameter, \<open>None\<close>
  being the \<open>SyntaxError\<close> it throws on text that is not JSON; reading the storage may
  throw as well.
\<close>

datatype json =
    JNull
  | JBool bool
  | JNum jsnum
  | JStr string
  | JArr "json list"
  | JObj "(string \<times> json) list"

datatype storage_read = ReadFails | NoItem | Item string

function dec_str :: "nat \<Rightarrow> string" where
  "dec_str n =
     (if n < 10 then [''0123456789'' ! n]
      else dec_str (n div 10) @ [''0123456789'' ! (n mod 10)])"
  by pat_completeness auto
termination
  by (relation "measure id") auto

declare dec_str.simps [simp del]

definition own_props :: "json \<Rightarrow> (string \<times> json) list" where
  \<comment> \<open>the own enumerable properties an object spread copies\<close>
  "own_props v =
     (case v of
        JObj kvs \<Rightarrow> kvs
      | JArr xs \<Rightarrow> map (\<lambda>i. (dec_str i, xs ! i)) [0..<length xs]
      | JStr s \<Rightarrow> map (\<lambda>i. (dec_str i, JStr [s ! i])) [0..<length s]
      | _ \<Rightarrow> [])"

definition spread_into :: "(string \<times> json) list \<Rightarrow> json \<Rightarrow> (string \<times> json) list" where
  \<comment> \<open>\<open>{ ...obj, ...v }\<close>\<close>
  "spread_into obj v = fold (\<lambda>kv m. AList.update (fst kv) (snd kv) m) (own_props v) obj"

definition emptyState :: "(string \<times> json) list" where
  "emptyState = [(''clients'', JArr []), (''projects'', JArr []), (''entries'', JArr []),
                 (''invoices'', JArr []), (''runningTimer'', JNull)]"

definition loadState :: "(string \<Rightarrow> json option) \<Rightarrow> bool \<Rightarrow> storage_read \<Rightarrow> (string \<times> json) list" where
  "loadState JSON_parse has_window stored =
     (if \<not> has_window then emptyState
      else case stored of
             ReadFails \<Rightarrow> emptyState
           | NoItem \<Rightarrow> emptyState
           | Item raw \<Rightarrow>
               if raw = [] then emptyState
               else (case JSON_parse raw of
                       None \<Rightarrow> emptyState
                     | Some parsed \<Rightarrow> spread_into [(''runningTimer'', JNull)] parsed))"

section \<open>Invoices\<close>

record LineAcc =
  a_hours :: jsnum
  a_rate :: jsnum
  a_name :: string

definition projectName :: "Project list \<Rightarrow> ID \<Rightarrow> string" where
  \<comment> \<open>\<open>projectMap.get(id)?.name || "Unassigned"\<close>\<close>
  "projectName ps k = str_or (map_option p_name (map_of (projectMap ps) k)) ''Unassigned''"

definition line_step ::
  "Client list \<Rightarrow> Project list \<Rightarrow> TimeEntry \<Rightarrow> (ID \<times> LineAcc) list \<Rightarrow> (ID \<times> LineAcc) list" where
  \<comment> \<open>the body of the loop over the invoice entries\<close>
  "line_step cs ps e m =
     (let rate = rateFor cs ps (Some (e_projectId e)) (Some (e_clientId e));
          hours = hoursFromMs (e_durationMs e);
          name = projectName ps (e_projectId e);
          prev = (case map_of m (e_projectId e) of
                    Some v \<Rightarrow> v
                  | None \<Rightarrow> \<lparr>a_hours = Fin 0 1, a_rate = rate, a_name = name\<rparr>)
      in AList.update (e_projectId e)
           \<lparr>a_hours = fadd (a_hours prev) hours, a_rate = num_or rate (a_rate prev),
            a_name = name\<rparr> m)"

definition line_of :: "ID \<times> LineAcc \<Rightarrow> LineItem" where
  "line_of kv =
     \<lparr>l_projectId = fst kv,
      l_description = ''Work on '' @ a_name (snd kv),
      l_hours = toFixed2 (a_hours (snd kv)),
      l_rate = num_or (a_rate (snd kv)) (Fin 0 1),
      l_amount = toFixed2 (fmul (a_hours (snd kv)) (num_or (a_rate (snd kv)) (Fin 0 1)))\<rparr>"

definition invoiceLines :: "Client list \<Rightarrow> Project list \<Rightarrow> TimeEntry list \<Rightarrow> LineItem list" where
  "invoiceLines cs ps ies = map line_of (fold (line_step cs ps) ies [])"

definition invoiceSubtotal :: "LineItem list \<Rightarrow> jsnum" where
  "invoiceSubtotal ls = fold (\<lambda>l sum. fadd sum (l_amount l)) ls (Fin 0 1)"

definition invoiceTax :: "jsnum \<Rightarrow> jsnum \<Rightarrow> jsnum" where
  "invoiceTax subtotal taxRate = toFixed2 (fmul subtotal (fdiv taxRate (Fin 100 1)))"

definition invoiceTotal :: "jsnum \<Rightarrow> jsnum \<Rightarrow> jsnum" where
  "invoiceTotal subtotal tax = toFixed2 (fadd subtotal tax)"

definition padStart4 :: "string \<Rightarrow> string" where
  \<comment> \<open>\<open>s.padStart(4, "0")\<close>\<close>
  "padStart4 s = replicate (4 - length s) (CHR ''0'') @ s"

text \<open>
  The form of the invoice tab: the selected client, the two dates and the tax rate. The
  clock enters \<open>createInvoice\<close> as the current year and the current date, \<open>uid\<close> as the
  identifier it returns.
\<close>

record InvoiceForm =
  f_invoiceClient :: "ID option"
  f_invoiceFrom :: string
  f_invoiceTo :: string
  f_taxRate :: jsnum

definition formLines :: "(string \<Rightarrow> int) \<Rightarrow> InvoiceForm \<Rightarrow> AppState \<Rightarrow> LineItem list" where
  "formLines getTime form state =
     invoiceLines (clients state) (projects state)
       (invoiceEntries getTime (f_invoiceClient form) (f_invoiceFrom form) (f_invoiceTo form)
          (entries state))"

definition newInvoice ::
  "ID \<Rightarrow> nat \<Rightarrow> string \<Rightarrow> (string \<Rightarrow> int) \<Rightarrow> InvoiceForm \<Rightarrow> AppState \<Rightarrow> Invoice" where
  "newInvoice uid year today getTime form state =
     (let ls = formLines getTime form state;
          subtotal = invoiceSubtotal ls;
          tax = invoiceTax subtotal (f_taxRate form);
          total = invoiceTotal subtotal tax
      in \<lparr>i_id = uid,
          i_number = ''INV-'' @ dec_str year @ ''-''
                       @ padStart4 (dec_str (length (invoices state) + 1)),
          i_clientId = the (f_invoiceClient form),
          i_date = today,
          i_dueDate = (if f_invoiceTo form \<noteq> [] then Some (f_invoiceTo form) else None),
          i_taxRate = Some (f_taxRate form),
          i_status = Draft,
          i_lineItems = ls,
          i_subtotal = toFixed2 subtotal,
          i_tax = toFixed2 tax,
          i_total = toFixed2 total\<rparr>)"

definition createInvoice ::
  "ID \<Rightarrow> nat \<Rightarrow> string \<Rightarrow> (string \<Rightarrow> int) \<Rightarrow> InvoiceForm \<Rightarrow> AppState \<Rightarrow> AppState" where
  "createInvoice uid year today getTime form state =
     (if \<not> id_given (f_invoiceClient form) then state
      else reducer uid state (ADD_INVOICE (newInvoice uid year today getTime form state)))"



section \<open>Export as delimited text\<close>

text \<open>
  Strings are lists of characters; the three characters with a meaning in the text are
  the double quote, the comma and the line feed. \<open>toISOString\<close> and the conversion of a
  number to a string are parameters: \<open>toISO\<close> formats a valid time value, \<open>num_str\<close> a
  number. \<open>new Date(t).toISOString()\<close> throws a \<open>RangeError\<close> for a time value beyond
  8.64e15 ms either side of the epoch, and the export then produces nothing.
\<close>

definition dquote :: char where
  "dquote = CHR 0x22"

definition comma :: char where
  "comma = CHR '',''"

definition newline :: char where
  "newline = CHR 0x0A"

definition needs :: "string \<Rightarrow> bool" where
  \<comment> \<open>the test of \<open>wrap\<close>: some character is a quote, a comma or a line feed\<close>
  "needs s = list_ex (\<lambda>c. c = dquote \<or> c = comma \<or> c = newline) s"

definition double_quotes :: "string \<Rightarrow> string" where
  \<comment> \<open>\<open>s.replaceAll('"', '""')\<close>\<close>
  "double_quotes s = concat (map (\<lambda>c. if c = dquote then [dquote, dquote] else [c]) s)"

definition wrap :: "string \<Rightarrow> string" where
  "wrap s = (if needs s then dquote # double_quotes s @ [dquote] else s)"

fun join :: "string \<Rightarrow> string list \<Rightarrow> string" where
  "join sep [] = []"
| "join sep [x] = x"
| "join sep (x # y # ys) = x @ sep @ join sep (y # ys)"

definition valid_time :: "int \<Rightarrow> bool" where
  "valid_time t = (\<bar>t\<bar> \<le> 8640000000000000)"

definition clientName :: "Client list \<Rightarrow> ID \<Rightarrow> string" where
  \<comment> \<open>\<open>clientMap.get(id)?.name || "Unassigned"\<close>\<close>
  "clientName cs k = str_or (map_option c_name (map_of (clientMap cs) k)) ''Unassigned''"

definition end_given :: "TimeEntry \<Rightarrow> bool" where
  \<comment> \<open>truthiness of \<open>e.end\<close>\<close>
  "end_given e = (case e_end e of None \<Rightarrow> False | Some x \<Rightarrow> x \<noteq> 0)"

definition csv_header :: "string list" where
  "csv_header = [''Entry ID'', ''Client'', ''Project'', ''Start'', ''End'', ''Duration(h)'',
                 ''Billable'', ''Notes'', ''Rate'', ''Amount'']"

definition csv_row ::
  "(int \<Rightarrow> string) \<Rightarrow> (jsnum \<Rightarrow> string) \<Rightarrow> Client list \<Rightarrow> Project list \<Rightarrow> TimeEntry \<Rightarrow> string" where
  "csv_row toISO num_str cs ps e =
     (let client = clientName cs (e_clientId e);
          project = projectName ps (e_projectId e);
          rate = rateFor cs ps (Some (e_projectId e)) (Some (e_clientId e));
          amount = toFixed2 (fmul rate (hoursFromMs (e_durationMs e)))
      in join [comma]
           [e_id e,
            wrap client,
            wrap project,
            toISO (e_start e),
            (if end_given e then toISO (the (e_end e)) else []),
            num_str (hoursFromMs (e_durationMs e)),
            (if e_billable e then ''Yes'' else ''No''),
            wrap (str_or (e_notes e) []),
            num_str rate,
            num_str amount])"

definition exportEntriesCSV ::
  "(int \<Rightarrow> string) \<Rightarrow> (jsnum \<Rightarrow> string) \<Rightarrow> Client list \<Rightarrow> Project list \<Rightarrow> TimeEntry list
     \<Rightarrow> string option" where
  \<comment> \<open>the text handed to \<open>download\<close>; \<open>None\<close> when \<open>toISOString\<close> throws\<close>
  "exportEntriesCSV toISO num_str cs ps es =
     (if list_all (\<lambda>e. valid_time (e_start e) \<and> (end_given e \<longrightarrow> valid_time (the (e_end e)))) es
      then Some (join [newline] (join [comma] csv_header # map (csv_row toISO num_str cs ps) es))
      else None)"

text \<open>
  The values of the ten fields of an entry's row, before any escaping: what a reader of
  the text is to get back.
\<close>

definition csv_fields ::
  "(int \<Rightarrow> string) \<Rightarrow> (jsnum \<Rightarrow> string) \<Rightarrow> Client list \<Rightarrow> Project list \<Rightarrow> TimeEntry
     \<Rightarrow> string list" where
  "csv_fields toISO num_str cs ps e =
     (let rate = rateFor cs ps (Some (e_projectId e)) (Some (e_clientId e))
      in [e_id e,
          clientName cs (e_clientId e),
          projectName ps (e_projectId e),
          toISO (e_start e),
          (if end_given e then toISO (the (e_end e)) else []),
          num_str (hoursFromMs (e_durationMs e)),
          (if e_billable e then ''Yes'' else ''No''),
          str_or (e_notes e) [],
          num_str rate,
          num_str (toFixed2 (fmul rate (hoursFromMs (e_durationMs e))))])"

text \<open>
  The reader of delimited text, after RFC 4180 for the dialect the export writes: fields
  separated by commas, records by line feeds, a field that begins with a double quote
  running to the next single double quote, a doubled one standing for one. It is a
  scanner with four states, the field and the record read so far kept in reverse.
\<close>

datatype scan_state = FieldStart | Unquoted | Quoted | QuoteSeen

fun csv_scan :: "scan_state \<Rightarrow> string \<Rightarrow> string list \<Rightarrow> string \<Rightarrow> string list list" where
  "csv_scan st f r [] = [rev (rev f # r)]"
| "csv_scan FieldStart f r (c # cs) =
     (if c = dquote then csv_scan Quoted f r cs
      else if c = comma then csv_scan FieldStart [] (rev f # r) cs
      else if c = newline then rev (rev f # r) # csv_scan FieldStart [] [] cs
      else csv_scan Unquoted (c # f) r cs)"
| "csv_scan Unquoted f r (c # cs) =
     (if c = comma then csv_scan FieldStart [] (rev f # r) cs
      else if c = newline then rev (rev f # r) # csv_scan FieldStart [] [] cs
      else csv_scan Unquoted (c # f) r cs)"
| "csv_scan Quoted f r (c # cs) =
     (if c = dquote then csv_scan QuoteSeen f r cs
      else csv_scan Quoted (c # f) r cs)"
| "csv_scan QuoteSeen f r (c # cs) =
     (if c = dquote then csv_scan Quoted (dquote # f) r cs
      else if c = comma then csv_scan FieldStart [] (rev f # r) cs
      else if c = newline then rev (rev f # r) # csv_scan FieldStart [] [] cs
      else csv_scan Unquoted (c # f) r cs)"

definition parse_csv :: "string \<Rightarrow> string list list" where
  "parse_csv text = csv_scan FieldStart [] [] text"

fun field_done :: "string list \<Rightarrow> string \<Rightarrow> string \<Rightarrow> string list list" where
  \<comment> \<open>the scan once a field \<open>s\<close> is complete and \<open>t\<close> is left, \<open>t\<close> empty or beginning with
      a separator\<close>
  "field_done r s [] = [rev (s # r)]"
| "field_done r s (c # cs) =
     (if c = comma then csv_scan FieldStart [] (s # r) cs
      else rev (s # r) # csv_scan FieldStart [] [] cs)"

definition at_separator :: "string \<Rightarrow> bool" where
  "at_separator t = (case t of [] \<Rightarrow> True | c # _ \<Rightarrow> c = comma \<or> c = newline)"

text \<open>
  A cell \<open>(x, s)\<close> is a field as written, \<open>x\<close>, with its value \<open>s\<close>: either the value
  itself, free of the three characters, or the value wrapped.
\<close>

definition cell_ok :: "string \<times> string \<Rightarrow> bool" where
  "cell_ok xs = (fst xs = wrap (snd xs) \<or> (fst xs = snd xs \<and> \<not> needs (snd xs)))"

definition csv_cells ::
  "(int \<Rightarrow> string) \<Rightarrow> (jsnum \<Rightarrow> string) \<Rightarrow> Client list \<Rightarrow> Project list \<Rightarrow> TimeEntry
     \<Rightarrow> (string \<times> string) list" where
  \<comment> \<open>the fields of an entry's row as written, each paired with its value\<close>
  "csv_cells toISO num_str cs ps e =
     zip [e_id e,
          wrap (clientName cs (e_clientId e)),
          wrap (projectName ps (e_projectId e)),
          toISO (e_start e),
          (if end_given e then toISO (the (e_end e)) else []),
          num_str (hoursFromMs (e_durationMs e)),
          (if e_billable e then ''Yes'' else ''No''),
          wrap (str_or (e_notes e) []),
          num_str (rateFor cs ps (Some (e_projectId e)) (Some (e_clientId e))),
          num_str (toFixed2 (fmul (rateFor cs ps (Some (e_projectId e)) (Some (e_clientId e)))
                                  (hoursFromMs (e_durationMs e))))]
         (csv_fields toISO num_str cs ps e)"

section \<open>Sample data\<close>

definition state0 :: AppState where
  "state0 = \<lparr>clients = [], projects = [], entries = [], invoices = [], runningTimer = None\<rparr>"

definition entry_a :: TimeEntry where
  "entry_a = \<lparr>e_id = ''entry_a'', e_clientId = ''client_acme'', e_projectId = ''project_site'',
               e_start = 1000, e_end = Some 3601000, e_durationMs = 3600000,
               e_notes = Some ''design'', e_tags = Some [], e_billable = True\<rparr>"

definition entry_b :: TimeEntry where
  "entry_b = \<lparr>e_id = ''entry_b'', e_clientId = ''client_bolt'', e_projectId = ''project_app'',
               e_start = 5000, e_end = Some 9000, e_durationMs = 4000,
               e_notes = None, e_tags = Some [], e_billable = False\<rparr>"

definition client_acme :: Client where
  "client_acme = \<lparr>c_id = ''client_acme'', c_name = ''Acme'', c_email = None,
                   c_rate = Some (Fin 50 1), c_color = None, c_active = True\<rparr>"

definition client_bolt :: Client where
  "client_bolt = \<lparr>c_id = ''client_bolt'', c_name = ''Bolt'', c_email = None,
                   c_rate = None, c_color = None, c_active = True\<rparr>"

definition project_site :: Project where
  "project_site = \<lparr>p_id = ''project_site'', p_clientId = ''client_acme'', p_name = ''Site'',
                    p_rate = Some (Fin 75 1), p_color = None, p_archived = False\<rparr>"

definition project_app :: Project where
  "project_app = \<lparr>p_id = ''project_app'', p_clientId = ''client_bolt'', p_name = ''App'',
                   p_rate = None, p_color = None, p_archived = False\<rparr>"

definition state1 :: AppState where
  "state1 = \<lparr>clients = [client_acme, client_bolt], projects = [project_site, project_app],
              entries = [entry_a, entry_b], invoices = [],
              runningTimer = Some \<lparr>t_clientId = None, t_projectId = Some ''project_app'',
                                    t_notes = Some ''call'', t_billable = True,
                                    t_start = 10000\<rparr>\<rparr>"


section \<open>Sample dates\<close>

definition sample_date :: "string \<Rightarrow> int" where
  \<comment> \<open>\<open>new Date(s).getTime()\<close> at the two dates used below\<close>
  "sample_date s =
     (if s = ''2024-01-01'' then 1704067200000
      else if s = ''2024-01-02'' then 1704153600000
      else 0)"

definition entry_first :: TimeEntry where
  \<comment> \<open>starts at the first millisecond of 2024-01-01\<close>
  "entry_first = \<lparr>e_id = ''entry_first'', e_clientId = ''client_acme'',
                   e_projectId = ''project_site'', e_start = 1704067200000,
                   e_end = Some 1704070800000, e_durationMs = 3600000,
                   e_notes = None, e_tags = Some [], e_billable = False\<rparr>"

definition entry_last :: TimeEntry where
  \<comment> \<open>ends at the last millisecond of 2024-01-02\<close>
  "entry_last = \<lparr>e_id = ''entry_last'', e_clientId = ''client_acme'',
                  e_projectId = ''project_site'', e_start = 1704236400000,
                  e_end = Some 1704239999999, e_durationMs = 3599999,
                  e_notes = None, e_tags = Some [], e_billable = True\<rparr>"

definition entry_late :: TimeEntry where
  \<comment> \<open>ends at the first millisecond of 2024-01-03\<close>
  "entry_late = \<lparr>e_id = ''entry_late'', e_clientId = ''client_acme'',
                  e_projectId = ''project_site'', e_start = 1704236400000,
                  e_end = Some 1704240000000, e_durationMs = 3600000,
                  e_notes = None, e_tags = Some [], e_billable = True\<rparr>"

definition entry_open :: TimeEntry where
  \<comment> \<open>has no end\<close>
  "entry_open = \<lparr>e_id = ''entry_open'', e_clientId = ''client_bolt'',
                  e_projectId = ''project_app'', e_start = 1704239999999,
                  e_end = None, e_durationMs = 0,
                  e_notes = None, e_tags = Some [], e_billable = True\<rparr>"

section \<open>A persisted snapshot\<close>

text \<open>
  The text \<open>persistState\<close> writes for the state without clients, projects, entries and
  invoices in which a billable timer was started at instant \<open>1000\<close>, and the value
  \<open>JSON.parse\<close> returns for it.
\<close>

definition sample_raw :: string where
  \<open>sample_raw = ''{"clients":[],"projects":[],"entries":[],"invoices":[],"runningTimer":{"notes":"","billable":true,"start":1000}}''\<close>

definition sample_truncated :: string where
  \<comment> \<open>a text cut off in the middle, which is not JSON\<close>
  \<open>sample_truncated = ''{"clients":[],"proj''\<close>

definition sample_snapshot :: json where
  "sample_snapshot =
     JObj [(''clients'', JArr []), (''projects'', JArr []), (''entries'', JArr []),
           (''invoices'', JArr []),
           (''runningTimer'', JObj [(''notes'', JStr []), (''billable'', JBool True),
                                    (''start'', JNum (Fin 1000 1))])]"

definition sample_parse :: "string \<Rightarrow> json option" where
  \<comment> \<open>\<open>JSON.parse\<close> at \<open>sample_raw\<close> and at a text that is not JSON\<close>
  "sample_parse raw = (if raw = sample_raw then Some sample_snapshot else None)"

section \<open>Sample invoices\<close>

definition client_rate :: "int \<Rightarrow> int \<Rightarrow> Client" where
  \<comment> \<open>client "Acme" with the default rate \<open>p / q\<close>\<close>
  "client_rate p q = \<lparr>c_id = ''client_acme'', c_name = ''Acme'', c_email = None,
                       c_rate = Some (Fin p q), c_color = None, c_active = True\<rparr>"

definition project_plain :: Project where
  \<comment> \<open>project "Site" of Acme, without a rate of its own\<close>
  "project_plain = \<lparr>p_id = ''project_site'', p_clientId = ''client_acme'', p_name = ''Site'',
                     p_rate = None, p_color = None, p_archived = False\<rparr>"

definition work :: "string \<Rightarrow> int \<Rightarrow> TimeEntry" where
  \<comment> \<open>a billable entry of the given duration on "Site"\<close>
  "work k ms = \<lparr>e_id = k, e_clientId = ''client_acme'', e_projectId = ''project_site'',
                e_start = 1704067200000, e_end = Some (1704067200000 + ms), e_durationMs = ms,
                e_notes = None, e_tags = Some [], e_billable = True\<rparr>"





definition two_projects :: AppState where
  \<comment> \<open>an hour of work on each of two projects, at 17.26 and at 20.78 an hour\<close>
  "two_projects =
     \<lparr>clients = [client_rate 100 1],
      projects = [\<lparr>p_id = ''project_a'', p_clientId = ''client_acme'', p_name = ''A'',
                    p_rate = Some (fl 1726 100), p_color = None, p_archived = False\<rparr>,
                  \<lparr>p_id = ''project_b'', p_clientId = ''client_acme'', p_name = ''B'',
                    p_rate = Some (fl 2078 100), p_color = None, p_archived = False\<rparr>],
      entries = [(work ''entry_1'' 3600000)\<lparr>e_projectId := ''project_a''\<rparr>,
                 (work ''entry_2'' 3600000)\<lparr>e_projectId := ''project_b''\<rparr>],
      invoices = [], runningTimer = None\<rparr>"

definition eighth_form :: InvoiceForm where
  \<comment> \<open>an invoice for Acme at a tax rate of 12.5 percent\<close>
  "eighth_form = \<lparr>f_invoiceClient = Some ''client_acme'', f_invoiceFrom = [], f_invoiceTo = [],
                   f_taxRate = Fin 25 2\<rparr>"

section \<open>Sample export\<close>

definition sample_iso :: "int \<Rightarrow> string" where
  \<comment> \<open>\<open>toISOString\<close> at the four instants of the sample entries; no other is used\<close>
  "sample_iso t =
     (if t = 1704067200000 then ''2024-01-01T00:00:00.000Z''
      else if t = 1704070800000 then ''2024-01-01T01:00:00.000Z''
      else if t = 1000 then ''1970-01-01T00:00:01.000Z''
      else if t = 3601000 then ''1970-01-01T01:00:01.000Z''
      else ''1970-01-01T00:00:00.000Z'')"

definition sample_num_str :: "jsnum \<Rightarrow> string" where
  \<comment> \<open>the decimal text of the two numbers of the sample entries; no other is used\<close>
  "sample_num_str x =
     (if x = Fin 1 1 then ''1''
      else if x = Fin 50 1 then ''50''
      else ''0'')"

definition client_quoted :: Client where
  \<comment> \<open>a client whose name has a comma and quotes\<close>
  \<open>client_quoted = \<lparr>c_id = ''client_acme'', c_name = ''Acme, "the" firm'', c_email = None,
                     c_rate = Some (Fin 50 1), c_color = None, c_active = True\<rparr>\<close>

definition entry_noted :: TimeEntry where
  \<comment> \<open>an hour of work whose notes have a comma, a quote and a line feed\<close>
  "entry_noted = \<lparr>e_id = ''entry_a1'', e_clientId = ''client_acme'',
                   e_projectId = ''project_site'', e_start = 1704067200000,
                   e_end = Some 1704070800000, e_durationMs = 3600000,
                   e_notes = Some (''a,b '' @ [dquote] @ ''c'' @ [dquote, newline] @ ''d''),
                   e_tags = Some [], e_billable = True\<rparr>"

section \<open>The number model at known values\<close>

text \<open>
  The model gives the familiar results of double arithmetic: \<open>0.1 + 0.2\<close> is the double
  next above \<open>0.3\<close>; \<open>(1.005).toFixed(2)\<close> is \<open>"1.00"\<close>, the double \<open>1.005\<close> lying below the
  decimal; \<open>2\<^sup>5\<^sup>3 + 1\<close> rounds to the even neighbour; and 54 seconds are \<open>0.01\<close> hours, the
  double \<open>0.015\<close> lying below the decimal.
\<close>

lemma fl_tenth: "fl 1 10 = Fin 3602879701896397 36028797018963968"
  by code_simp

lemma fadd_tenth_fifth:
  "fadd (fl 1 10) (fl 2 10) = Fin 1351079888211149 4503599627370496
   \<and> fl 3 10 = Fin 5404319552844595 18014398509481984"
  by code_simp

lemma toFixed2_1005: "toFixed2 (fl 1005 1000) = Fin 1 1"
  by code_simp

lemma fl_tie_to_even:
  "fl 9007199254740993 1 = Fin 9007199254740992 1 \<and> fl 9007199254740995 1 = Fin 9007199254740996 1"
  by code_simp

lemma hoursFromMs_54s: "hoursFromMs 54000 = fl 1 100"
  by code_simp

section \<open>The timer\<close>

text \<open>
  The reducer's \<open>START_TIMER\<close> case installs the payload whatever the state is; the
  check for a running timer is made by \<open>startTimer\<close>, the only place that dispatches
  the action.
\<close>

lemma reducer_START_TIMER_installs:
  "runningTimer (reducer uid s (START_TIMER t)) = Some t"
  by simp

text \<open>
  C1. Starting a timer while one is active changes nothing: the state after the attempt
  is the state before it, so the Active Timer, and with it the start instant, is the
  original one and the new selection is dropped.
\<close>

theorem startTimer_while_running_is_noop:
  assumes "runningTimer s = Some t"
  shows "startTimer uid selClient selProject notes billable now s = s
       \<and> runningTimer (startTimer uid selClient selProject notes billable now s) = Some t"
  using assms by (simp add: startTimer_def)

theorem startTimer_while_running_is_noop_witness:
  "runningTimer (startTimer ''u'' (Some ''client_a'') None ''first'' True 1000 state0)
     = Some \<lparr>t_clientId = Some ''client_a'', t_projectId = None, t_notes = Some ''first'',
             t_billable = True, t_start = 1000\<rparr>
   \<and> startTimer ''u'' (Some ''client_b'') (Some ''project_b'') ''second'' False 2000
        (startTimer ''u'' (Some ''client_a'') None ''first'' True 1000 state0)
     = startTimer ''u'' (Some ''client_a'') None ''first'' True 1000 state0"
proof -
  have running:
    "runningTimer (startTimer ''u'' (Some ''client_a'') None ''first'' True 1000 state0)
       = Some \<lparr>t_clientId = Some ''client_a'', t_projectId = None, t_notes = Some ''first'',
               t_billable = True, t_start = 1000\<rparr>"
    by (simp add: startTimer_def state0_def)
  from startTimer_while_running_is_noop [OF running] running show ?thesis by simp
qed

text \<open>
  The handler \<open>stopTimer\<close> repeats the reducer's own check, so stopping through the
  handler and dispatching \<open>STOP_TIMER\<close> are the same transition.
\<close>

lemma stopTimer_is_STOP_TIMER:
  "stopTimer uid now s = reducer uid s (STOP_TIMER now)"
  by (cases "runningTimer s") (simp_all add: stopTimer_def)

text \<open>
  C2. Stopping at instant \<open>end\<close> leaves the state as it is when no timer is active.
  With an active timer it clears the timer and puts exactly one new entry in front of the
  entries, all others kept as they were: its duration is \<open>max 0 (end - start)\<close>, its
  start is the timer's start, and its client and project are the sentinel identifiers
  when the timer had none selected.
\<close>

theorem stopTimer_finalizes_entry:
  "(runningTimer s = None \<longrightarrow> reducer uid s (STOP_TIMER end) = s)
   \<and> (\<forall>t. runningTimer s = Some t \<longrightarrow>
        (\<exists>e. reducer uid s (STOP_TIMER end)
                = s\<lparr>runningTimer := None, entries := e # entries s\<rparr>
             \<and> e_durationMs e = max 0 (end - t_start t)
             \<and> e_start e = t_start t
             \<and> e_end e = Some end
             \<and> e_notes e = t_notes t
             \<and> e_billable e = t_billable t
             \<and> e_id e = uid
             \<and> (t_clientId t = None \<longrightarrow> e_clientId e = ''unassigned_client'')
             \<and> (t_projectId t = None \<longrightarrow> e_projectId e = ''unassigned_project'')
             \<and> (\<forall>c. t_clientId t = Some c \<and> c \<noteq> [] \<longrightarrow> e_clientId e = c)
             \<and> (\<forall>p. t_projectId t = Some p \<and> p \<noteq> [] \<longrightarrow> e_projectId e = p)))"
  by (auto simp: str_or_def Let_def)

theorem stopTimer_finalizes_entry_witness:
  "reducer ''entry_new'' state0 (STOP_TIMER 5000) = state0
   \<and> (\<exists>e. reducer ''entry_new'' state1 (STOP_TIMER 13000)
             = state1\<lparr>runningTimer := None, entries := e # entries state1\<rparr>
          \<and> e_durationMs e = 3000 \<and> e_start e = 10000 \<and> e_end e = Some 13000
          \<and> e_clientId e = ''unassigned_client'' \<and> e_projectId e = ''project_app'')
   \<and> (\<exists>e. reducer ''entry_new'' state1 (STOP_TIMER 7000)
             = state1\<lparr>runningTimer := None, entries := e # entries state1\<rparr>
          \<and> e_durationMs e = 0)"
  using stopTimer_finalizes_entry [of state0 "''entry_new''" 5000]
    stopTimer_finalizes_entry [of state1 "''entry_new''" 13000]
    stopTimer_finalizes_entry [of state1 "''entry_new''" 7000]
  by (simp add: state0_def state1_def)

section \<open>Cascading delete\<close>

text \<open>
  C5. Deleting client \<open>k\<close> removes the clients with identifier \<open>k\<close>, the projects whose
  client is \<open>k\<close> and the entries whose client is \<open>k\<close>, and nothing else: the other
  clients, projects and entries stay, in their order, and the invoices (also those of
  \<open>k\<close>) and the timer are untouched.
\<close>

theorem deleteClient_removes_exactly:
  "clients (reducer uid s (DELETE_CLIENT k)) = filter (\<lambda>c. c_id c \<noteq> k) (clients s)
   \<and> projects (reducer uid s (DELETE_CLIENT k)) = filter (\<lambda>p. p_clientId p \<noteq> k) (projects s)
   \<and> entries (reducer uid s (DELETE_CLIENT k)) = filter (\<lambda>e. e_clientId e \<noteq> k) (entries s)
   \<and> (\<forall>c. c \<in> set (clients (reducer uid s (DELETE_CLIENT k)))
            \<longleftrightarrow> c \<in> set (clients s) \<and> c_id c \<noteq> k)
   \<and> (\<forall>p. p \<in> set (projects (reducer uid s (DELETE_CLIENT k)))
            \<longleftrightarrow> p \<in> set (projects s) \<and> p_clientId p \<noteq> k)
   \<and> (\<forall>e. e \<in> set (entries (reducer uid s (DELETE_CLIENT k)))
            \<longleftrightarrow> e \<in> set (entries s) \<and> e_clientId e \<noteq> k)
   \<and> invoices (reducer uid s (DELETE_CLIENT k)) = invoices s
   \<and> runningTimer (reducer uid s (DELETE_CLIENT k)) = runningTimer s"
  by auto

theorem deleteClient_removes_exactly_witness:
  "clients (reducer ''u'' state1 (DELETE_CLIENT ''client_acme'')) = [client_bolt]
   \<and> projects (reducer ''u'' state1 (DELETE_CLIENT ''client_acme'')) = [project_app]
   \<and> entries (reducer ''u'' state1 (DELETE_CLIENT ''client_acme'')) = [entry_b]
   \<and> invoices (reducer ''u'' state1 (DELETE_CLIENT ''client_acme'')) = invoices state1
   \<and> runningTimer (reducer ''u'' state1 (DELETE_CLIENT ''client_acme'')) = runningTimer state1"
  using deleteClient_removes_exactly [of "''u''" state1 "''client_acme''"]
  by (simp add: state1_def client_acme_def client_bolt_def project_site_def project_app_def
      entry_a_def entry_b_def)

section \<open>Editing start and end\<close>







section \<open>The effective rate\<close>

lemma find_snoc:
  "List.find P (as @ [b])
     = (case List.find P as of None \<Rightarrow> (if P b then Some b else None) | Some y \<Rightarrow> Some y)"
  by (induction as) auto

lemma map_of_fold_update:
  "map_of (fold (\<lambda>x m. AList.update (f x) x m) xs m0) k
     = (case List.find (\<lambda>x. f x = k) (rev xs) of None \<Rightarrow> map_of m0 k | Some x \<Rightarrow> Some x)"
proof (induction xs arbitrary: m0)
  case Nil
  show ?case by simp
next
  case (Cons x xs)
  show ?case
    by (simp add: Cons.IH find_snoc update_conv' split: option.splits)
qed

lemma projectMap_get:
  "map_of (projectMap ps) k = List.find (\<lambda>p. p_id p = k) (rev ps)"
  by (simp add: projectMap_def map_of_fold_update split: option.splits)

lemma clientMap_get:
  "map_of (clientMap cs) k = List.find (\<lambda>c. c_id c = k) (rev cs)"
  by (simp add: clientMap_def map_of_fold_update split: option.splits)

text \<open>
  An empty identifier is treated as no identifier: \<open>rateFor\<close> tests the identifier for
  truthiness before it looks it up.
\<close>

lemma rateFor_empty_identifier:
  "rateFor cs ps (Some []) clientId = rateFor cs ps None clientId
   \<and> rateFor cs ps projectId (Some []) = rateFor cs ps projectId None"
  by (simp add: rateFor_def id_given_def)

text \<open>
  C8. With identifiers that are non-empty where given, the effective rate is the rate of
  the project with the given identifier when there is such a project and its rate is a
  number other than zero; failing that, the default rate of the client with the given
  identifier when there is such a client and it has a rate (a default rate of zero
  giving zero); and zero otherwise. The project or client with an identifier is the one
  the map holds for it, the last so named in the collection.
\<close>

theorem rateFor_project_over_client:
  assumes "projectId \<noteq> Some []" and "clientId \<noteq> Some []"
  shows "rateFor cs ps projectId clientId =
     (case Option.bind (Option.bind projectId (\<lambda>k. List.find (\<lambda>p. p_id p = k) (rev ps))) p_rate of
        Some r \<Rightarrow> if truthy r then r else
          (case Option.bind (Option.bind clientId (\<lambda>k. List.find (\<lambda>c. c_id c = k) (rev cs))) c_rate of
             Some r' \<Rightarrow> if truthy r' then r' else Fin 0 1
           | None \<Rightarrow> Fin 0 1)
      | None \<Rightarrow>
          (case Option.bind (Option.bind clientId (\<lambda>k. List.find (\<lambda>c. c_id c = k) (rev cs))) c_rate of
             Some r' \<Rightarrow> if truthy r' then r' else Fin 0 1
           | None \<Rightarrow> Fin 0 1))"
  using assms
  by (cases projectId; cases clientId)
     (auto simp: rateFor_def id_given_def opt_truthy_def projectRate_def clientRate_def
        projectMap_get clientMap_get split: option.splits Option.bind_splits)

theorem rateFor_project_over_client_witness:
  "rateFor [client_acme, client_bolt] [project_site, project_app]
     (Some ''project_site'') (Some ''client_acme'') = Fin 75 1
   \<and> rateFor [client_acme, client_bolt] [project_site\<lparr>p_rate := None\<rparr>, project_app]
     (Some ''project_site'') (Some ''client_acme'') = Fin 50 1
   \<and> rateFor [client_acme, client_bolt] [project_site, project_app]
     None (Some ''client_acme'') = Fin 50 1
   \<and> rateFor [client_acme, client_bolt] [project_site, project_app]
     (Some ''project_app'') (Some ''client_bolt'') = Fin 0 1"
  using rateFor_project_over_client [of "Some ''project_site''" "Some ''client_acme''"
      "[client_acme, client_bolt]" "[project_site, project_app]"]
    rateFor_project_over_client [of "Some ''project_site''" "Some ''client_acme''"
      "[client_acme, client_bolt]" "[project_site\<lparr>p_rate := None\<rparr>, project_app]"]
    rateFor_project_over_client [of None "Some ''client_acme''"
      "[client_acme, client_bolt]" "[project_site, project_app]"]
    rateFor_project_over_client [of "Some ''project_app''" "Some ''client_bolt''"
      "[client_acme, client_bolt]" "[project_site, project_app]"]
  by (simp add: client_acme_def client_bolt_def project_site_def project_app_def)

section \<open>The date-range filter\<close>

text \<open>
  C7. An entry passes the range filter exactly when its start is not before the lower
  bound and its end (its start, when it has no end) is not after the upper bound. An
  empty lower bound admits every start, an empty upper bound every end, and a given
  upper bound reaches to the last millisecond of its day, \<open>86399999\<close> ms after the day
  begins. The report filter is this test alone; the invoice filter adds the client and
  the billable flag.
\<close>

theorem range_filter_inclusive:
  "(e \<in> set (filteredEntries getTime fromDate toDate es) \<longleftrightarrow>
      e \<in> set es
      \<and> (fromDate = [] \<or> getTime fromDate \<le> e_start e)
      \<and> (toDate = [] \<or> (case e_end e of None \<Rightarrow> e_start e | Some x \<Rightarrow> x)
                          \<le> getTime toDate + 86399999))
   \<and> (e \<in> set (invoiceEntries getTime invoiceClient fromDate toDate es) \<longleftrightarrow>
      e \<in> set es \<and> id_given invoiceClient \<and> Some (e_clientId e) = invoiceClient \<and> e_billable e
      \<and> (fromDate = [] \<or> getTime fromDate \<le> e_start e)
      \<and> (toDate = [] \<or> (case e_end e of None \<Rightarrow> e_start e | Some x \<Rightarrow> x)
                          \<le> getTime toDate + 86399999))"
  by (cases invoiceClient)
     (auto simp: filteredEntries_def invoiceEntries_def rangeFrom_def rangeTo_def
        end_or_start_def id_given_def Let_def split: option.splits)

theorem range_filter_inclusive_witness:
  "entry_first \<in> set (filteredEntries sample_date ''2024-01-01'' ''2024-01-02''
                        [entry_first, entry_last, entry_late, entry_open])
   \<and> entry_last \<in> set (filteredEntries sample_date ''2024-01-01'' ''2024-01-02''
                        [entry_first, entry_last, entry_late, entry_open])
   \<and> entry_late \<notin> set (filteredEntries sample_date ''2024-01-01'' ''2024-01-02''
                        [entry_first, entry_last, entry_late, entry_open])
   \<and> entry_open \<in> set (filteredEntries sample_date ''2024-01-01'' ''2024-01-02''
                        [entry_first, entry_last, entry_late, entry_open])
   \<and> entry_late \<in> set (filteredEntries sample_date [] []
                        [entry_first, entry_last, entry_late, entry_open])
   \<and> entry_last \<in> set (invoiceEntries sample_date (Some ''client_acme'') ''2024-01-01''
                        ''2024-01-02'' [entry_first, entry_last, entry_late, entry_open])
   \<and> entry_first \<notin> set (invoiceEntries sample_date (Some ''client_acme'') ''2024-01-01''
                        ''2024-01-02'' [entry_first, entry_last, entry_late, entry_open])"
  using range_filter_inclusive [of entry_first sample_date "''2024-01-01''" "''2024-01-02''"
      "[entry_first, entry_last, entry_late, entry_open]" "Some ''client_acme''"]
    range_filter_inclusive [of entry_last sample_date "''2024-01-01''" "''2024-01-02''"
      "[entry_first, entry_last, entry_late, entry_open]" "Some ''client_acme''"]
    range_filter_inclusive [of entry_late sample_date "''2024-01-01''" "''2024-01-02''"
      "[entry_first, entry_last, entry_late, entry_open]" "Some ''client_acme''"]
    range_filter_inclusive [of entry_open sample_date "''2024-01-01''" "''2024-01-02''"
      "[entry_first, entry_last, entry_late, entry_open]" "Some ''client_acme''"]
    range_filter_inclusive [of entry_late sample_date "[]" "[]"
      "[entry_first, entry_last, entry_late, entry_open]" "Some ''client_acme''"]
  by (simp add: sample_date_def entry_first_def entry_last_def entry_late_def entry_open_def
      id_given_def)

section \<open>Loading\<close>

lemma map_of_spread:
  "map_of (fold (\<lambda>kv m. AList.update (fst kv) (snd kv) m) kvs m0) k
     = (case map_of (rev kvs) k of None \<Rightarrow> map_of m0 k | Some v \<Rightarrow> Some v)"
proof (induction kvs arbitrary: m0)
  case Nil
  show ?case by simp
next
  case (Cons kv kvs)
  show ?case
    by (cases kv) (simp add: Cons.IH update_conv' map_add_def split: option.splits)
qed

text \<open>
  C3, as the code has it. Loading gives the empty initial state when there is no window,
  when the storage cannot be read or holds nothing or the empty text, and when the text
  is not JSON. A parsed object is taken over property by property; its \<open>runningTimer\<close> is
  the persisted one, and \<open>null\<close> only when the object has no such property.
\<close>

theorem loadState_keeps_persisted_timer:
  "((\<not> has_window \<or> stored = ReadFails \<or> stored = NoItem \<or> stored = Item []
       \<or> (\<exists>raw. stored = Item raw \<and> JSON_parse raw = None))
      \<longrightarrow> loadState JSON_parse has_window stored = emptyState)
   \<and> (has_window \<and> stored = Item raw \<and> raw \<noteq> [] \<and> JSON_parse raw = Some (JObj kvs)
      \<longrightarrow> map_of (loadState JSON_parse has_window stored) k
            = (case map_of (rev kvs) k of
                 Some v \<Rightarrow> Some v
               | None \<Rightarrow> if k = ''runningTimer'' then Some JNull else None))"
  by (auto simp: loadState_def spread_into_def own_props_def map_of_spread
      split: option.splits storage_read.splits)

theorem loadState_keeps_persisted_timer_witness:
  "loadState sample_parse True (Item sample_truncated) = emptyState
   \<and> loadState sample_parse True NoItem = emptyState
   \<and> map_of (loadState sample_parse True (Item sample_raw)) ''runningTimer''
       = Some (JObj [(''notes'', JStr []), (''billable'', JBool True),
                     (''start'', JNum (Fin 1000 1))])
   \<and> map_of (loadState sample_parse True (Item sample_raw)) ''entries'' = Some (JArr [])"
proof -
  have np: "sample_parse sample_truncated = None"
    by (simp add: sample_parse_def sample_raw_def sample_truncated_def)
  have p: "sample_parse sample_raw = Some (JObj
     [(''clients'', JArr []), (''projects'', JArr []), (''entries'', JArr []),
      (''invoices'', JArr []),
      (''runningTimer'', JObj [(''notes'', JStr []), (''billable'', JBool True),
                               (''start'', JNum (Fin 1000 1))])])"
    by (simp add: sample_parse_def sample_snapshot_def)
  have ne: "sample_raw \<noteq> []"
    by (simp add: sample_raw_def)
  have a: "loadState sample_parse True (Item sample_truncated) = emptyState"
    using loadState_keeps_persisted_timer [of True "Item sample_truncated" sample_parse] np
    by blast
  have b: "loadState sample_parse True NoItem = emptyState"
    using loadState_keeps_persisted_timer [of True NoItem sample_parse] by blast
  have c: "map_of (loadState sample_parse True (Item sample_raw)) ''runningTimer''
       = Some (JObj [(''notes'', JStr []), (''billable'', JBool True),
                     (''start'', JNum (Fin 1000 1))])"
    using loadState_keeps_persisted_timer [of True "Item sample_raw" sample_parse sample_raw _
        "''runningTimer''"] p ne
    by simp
  have d: "map_of (loadState sample_parse True (Item sample_raw)) ''entries'' = Some (JArr [])"
    using loadState_keeps_persisted_timer [of True "Item sample_raw" sample_parse sample_raw _
        "''entries''"] p ne
    by simp
  from a b c d show ?thesis by simp
qed

text \<open>
  C3 as stated fails: a snapshot persisted while a timer was running is loaded with that
  timer, not with \<open>null\<close>.
\<close>

theorem loadState_timer_cleared_counterexample:
  "map_of (loadState sample_parse True (Item sample_raw)) ''runningTimer'' \<noteq> Some JNull"
  by (simp add: loadState_def sample_parse_def sample_snapshot_def spread_into_def
      own_props_def sample_raw_def)

section \<open>Invoice lines\<close>













section \<open>Invoice totals\<close>




text \<open>
  The tax likewise comes from the sum of the amounts as it was added up, not from the
  stored subtotal. For amounts of 17.26 and 20.78 the sum is the double next above
  \<open>38.04\<close>; at 12.5 percent it gives a tax of \<open>4.76\<close>, where the stored subtotal \<open>38.04\<close>
  gives \<open>4.75\<close>.
\<close>

lemma invoice_tax_from_unrounded_sum:
  "map l_amount (i_lineItems (hd (invoices
       (createInvoice ''inv_1'' 2024 ''2024-02-01'' sample_date eighth_form two_projects))))
     = [fl 1726 100, fl 2078 100]
   \<and> i_subtotal (hd (invoices
       (createInvoice ''inv_1'' 2024 ''2024-02-01'' sample_date eighth_form two_projects)))
     = fl 3804 100
   \<and> i_tax (hd (invoices
       (createInvoice ''inv_1'' 2024 ''2024-02-01'' sample_date eighth_form two_projects)))
     = fl 476 100
   \<and> i_total (hd (invoices
       (createInvoice ''inv_1'' 2024 ''2024-02-01'' sample_date eighth_form two_projects)))
     = fl 428 10
   \<and> fadd (fadd (Fin 0 1) (fl 1726 100)) (fl 2078 100) \<noteq> fl 3804 100
   \<and> toFixed2 (fmul (fl 3804 100) (fdiv (Fin 25 2) (Fin 100 1))) = fl 475 100
   \<and> toFixed2 (fadd (fl 3804 100) (fl 476 100)) = fl 428 10"
  by code_simp

section \<open>Reading the export back\<close>

lemma chars_distinct [simp]:
  "dquote \<noteq> comma" "dquote \<noteq> newline" "comma \<noteq> newline"
  "comma \<noteq> dquote" "newline \<noteq> dquote" "newline \<noteq> comma"
  by (simp_all add: dquote_def comma_def newline_def)

lemma scan_unquoted:
  assumes "\<not> needs s" and "at_separator t"
  shows "csv_scan Unquoted f r (s @ t) = field_done r (rev f @ s) t"
  using assms
proof (induction s arbitrary: f)
  case Nil
  then show ?case
    by (cases t) (auto simp: at_separator_def)
next
  case (Cons c s)
  then show ?case
    by (simp add: needs_def)
qed

lemma scan_plain:
  assumes "\<not> needs s" and "at_separator t"
  shows "csv_scan FieldStart [] r (s @ t) = field_done r s t"
proof (cases s)
  case Nil
  with assms(2) show ?thesis
    by (cases t) (auto simp: at_separator_def)
next
  case (Cons c s')
  with assms have "\<not> needs s'" and c: "c \<noteq> dquote" "c \<noteq> comma" "c \<noteq> newline"
    by (auto simp: needs_def)
  from scan_unquoted [OF this(1) assms(2), of "[c]" r] c Cons show ?thesis
    by simp
qed

lemma scan_quoted:
  assumes "at_separator t"
  shows "csv_scan Quoted f r (double_quotes s @ dquote # t) = field_done r (rev f @ s) t"
proof (induction s arbitrary: f)
  case Nil
  from assms show ?case
    by (cases t) (auto simp: at_separator_def double_quotes_def)
next
  case (Cons c s)
  have dq: "double_quotes (c # s) = (if c = dquote then [dquote, dquote] else [c]) @ double_quotes s"
    by (simp add: double_quotes_def)
  show ?case
    using Cons [of "c # f"] by (auto simp: dq)
qed

lemma scan_wrap:
  assumes "at_separator t"
  shows "csv_scan FieldStart [] r (wrap s @ t) = field_done r s t"
proof (cases "needs s")
  case True
  then show ?thesis
    using scan_quoted [OF assms, of "[]" r s] by (simp add: wrap_def)
next
  case False
  then show ?thesis
    using scan_plain [OF False assms] by (simp add: wrap_def)
qed

lemma scan_cell:
  assumes "cell_ok (x, s)" and "at_separator t"
  shows "csv_scan FieldStart [] r (x @ t) = field_done r s t"
  using assms scan_wrap [OF assms(2)] scan_plain [OF _ assms(2)]
  by (auto simp: cell_ok_def)

lemma scan_cells:
  assumes "list_all cell_ok xs" and "xs \<noteq> []" and "t = [] \<or> hd t = newline"
  shows "csv_scan FieldStart [] r (join [comma] (map fst xs) @ t)
           = (case t of [] \<Rightarrow> [rev r @ map snd xs]
              | c # cs \<Rightarrow> (rev r @ map snd xs) # csv_scan FieldStart [] [] cs)"
  using assms(1,2)
proof (induction xs arbitrary: r)
  case Nil
  then show ?case by simp
next
  case (Cons x xs)
  obtain a s where x: "x = (a, s)"
    by (cases x)
  show ?case
  proof (cases xs)
    case Nil
    have sep: "at_separator t"
      using assms(3) by (cases t) (auto simp: at_separator_def)
    from Cons.prems x have "cell_ok (a, s)"
      by simp
    from scan_cell [OF this sep, of r] show ?thesis
      using assms(3) x Nil by (cases t) auto
  next
    case (Cons y ys)
    have sep: "at_separator (comma # join [comma] (map fst xs) @ t)"
      by (simp add: at_separator_def)
    from Cons.prems x have c: "cell_ok (a, s)" and rest: "list_all cell_ok xs"
      by simp_all
    have "csv_scan FieldStart [] r (join [comma] (map fst (x # xs)) @ t)
            = csv_scan FieldStart [] r (a @ comma # join [comma] (map fst xs) @ t)"
      using x Cons by simp
    also have "\<dots> = csv_scan FieldStart [] (s # r) (join [comma] (map fst xs) @ t)"
      using scan_cell [OF c sep, of r] by simp
    also have "\<dots> = (case t of [] \<Rightarrow> [rev (s # r) @ map snd xs]
              | c # cs \<Rightarrow> (rev (s # r) @ map snd xs) # csv_scan FieldStart [] [] cs)"
      using Cons.IH [OF rest, of "s # r"] Cons by simp
    finally show ?thesis
      using x by (simp split: list.splits)
  qed
qed

lemma scan_rows:
  assumes "list_all (\<lambda>row. list_all cell_ok row \<and> row \<noteq> []) rows" and "rows \<noteq> []"
  shows "csv_scan FieldStart [] [] (join [newline] (map (\<lambda>row. join [comma] (map fst row)) rows))
           = map (map snd) rows"
  using assms
proof (induction rows)
  case Nil
  then show ?case by simp
next
  case (Cons row rows)
  then have ok: "list_all cell_ok row" and ne: "row \<noteq> []"
    by simp_all
  show ?case
  proof (cases rows)
    case Nil
    from scan_cells [OF ok ne, of "[]" "[]"] show ?thesis
      using Nil by simp
  next
    case (Cons row' rows')
    let ?rest = "join [newline] (map (\<lambda>row. join [comma] (map fst row)) rows)"
    have "csv_scan FieldStart [] []
            (join [newline] (map (\<lambda>row. join [comma] (map fst row)) (row # rows)))
          = csv_scan FieldStart [] [] (join [comma] (map fst row) @ newline # ?rest)"
      using Cons by simp
    also have "\<dots> = map snd row # csv_scan FieldStart [] [] ?rest"
      using scan_cells [OF ok ne, of "newline # ?rest" "[]"] by simp
    also have "csv_scan FieldStart [] [] ?rest = map (map snd) rows"
      using Cons.IH Cons.prems Cons by simp
    finally show ?thesis by simp
  qed
qed

lemma csv_cells_fst:
  "join [comma] (map fst (csv_cells toISO num_str cs ps e)) = csv_row toISO num_str cs ps e"
  by (simp add: csv_cells_def csv_fields_def csv_row_def Let_def)

lemma csv_cells_snd:
  "map snd (csv_cells toISO num_str cs ps e) = csv_fields toISO num_str cs ps e"
  by (simp add: csv_cells_def csv_fields_def Let_def)

lemma csv_cells_ok:
  assumes "\<not> needs (e_id e)" and "\<forall>t. \<not> needs (toISO t)" and "\<forall>x. \<not> needs (num_str x)"
  shows "list_all cell_ok (csv_cells toISO num_str cs ps e) \<and> csv_cells toISO num_str cs ps e \<noteq> []"
  using assms
  by (simp add: csv_cells_def csv_fields_def Let_def cell_ok_def needs_def
      dquote_def comma_def newline_def)

lemma csv_header_ok:
  "list_all cell_ok (map (\<lambda>h. (h, h)) csv_header) \<and> map (\<lambda>h. (h, h)) csv_header \<noteq> []"
  by (simp add: csv_header_def cell_ok_def needs_def dquote_def comma_def newline_def)

text \<open>
  The identifier is the one text field that \<open>csv_row\<close> does not wrap. Identifiers made
  by \<open>uid\<close> consist of letters, digits and underscores; one with a comma in it would be
  read back as two fields.
\<close>

lemma export_identifier_unwrapped:
  "map (take 3) (parse_csv (the (exportEntriesCSV sample_iso sample_num_str [] []
       [entry_noted\<lparr>e_id := ''a,b''\<rparr>])))
     = [[''Entry ID'', ''Client'', ''Project''], [''a'', ''b'', ''Unassigned'']]"
  by code_simp

text \<open>
  C9. A field that contains a comma, a quote or a line feed is written between quotes
  with its quotes doubled, any other field as it is. When the export produces a text,
  reading the text back gives the header and, for each entry in order, the ten values of
  its row, field for field. The client name, the project name and the notes are
  wrapped; the identifier is written as it is and is taken, like the texts of dates and
  numbers, to contain none of the three characters.
\<close>

theorem export_round_trip:
  assumes "\<forall>e \<in> set es. \<not> needs (e_id e)"
    and "\<forall>t. \<not> needs (toISO t)"
    and "\<forall>x. \<not> needs (num_str x)"
    and "\<forall>e \<in> set es. valid_time (e_start e) \<and> (end_given e \<longrightarrow> valid_time (the (e_end e)))"
  shows "(\<forall>s. wrap s = (if needs s then dquote # double_quotes s @ [dquote] else s))
       \<and> (\<exists>text. exportEntriesCSV toISO num_str cs ps es = Some text
             \<and> parse_csv text = csv_header # map (csv_fields toISO num_str cs ps) es)"
proof -
  let ?rows = "map (\<lambda>h. (h, h)) csv_header # map (csv_cells toISO num_str cs ps) es"
  let ?text = "join [newline] (join [comma] csv_header # map (csv_row toISO num_str cs ps) es)"
  have ex: "exportEntriesCSV toISO num_str cs ps es = Some ?text"
    using assms(4) by (simp add: exportEntriesCSV_def list_all_iff)
  have ok: "list_all (\<lambda>row. list_all cell_ok row \<and> row \<noteq> []) ?rows"
    using assms(1-3) csv_header_ok csv_cells_ok [of _ toISO num_str cs ps]
    by (auto simp: list_all_iff)
  have header: "join [comma] (map fst (map (\<lambda>h. (h, h)) csv_header)) = join [comma] csv_header"
    by (simp add: comp_def)
  have written: "map (\<lambda>row. join [comma] (map fst row)) ?rows
                   = join [comma] csv_header # map (csv_row toISO num_str cs ps) es"
    using header by (simp add: csv_cells_fst comp_def)
  have fields: "map (map snd) ?rows = csv_header # map (csv_fields toISO num_str cs ps) es"
    by (simp add: csv_cells_snd comp_def)
  have "parse_csv ?text = map (map snd) ?rows"
    unfolding parse_csv_def written [symmetric] by (rule scan_rows [OF ok]) simp
  with fields have "parse_csv ?text = csv_header # map (csv_fields toISO num_str cs ps) es"
    by simp
  with ex show ?thesis
    by (simp add: wrap_def)
qed

theorem export_round_trip_witness:
  "needs (c_name client_quoted)
   \<and> needs (the (e_notes entry_noted))
   \<and> (\<exists>text. exportEntriesCSV sample_iso sample_num_str [client_quoted] [project_plain]
                 [entry_noted, entry_a] = Some text
          \<and> parse_csv text
              = [csv_header,
                 [''entry_a1'', c_name client_quoted, ''Site'', ''2024-01-01T00:00:00.000Z'',
                  ''2024-01-01T01:00:00.000Z'', ''1'', ''Yes'', the (e_notes entry_noted),
                  ''50'', ''50''],
                 [''entry_a'', c_name client_quoted, ''Site'', ''1970-01-01T00:00:01.000Z'',
                  ''1970-01-01T01:00:01.000Z'', ''1'', ''Yes'', ''design'', ''50'', ''50'']])"
proof -
  have a1: "\<forall>e \<in> set [entry_noted, entry_a]. \<not> needs (e_id e)"
    by (simp add: entry_noted_def entry_a_def needs_def dquote_def comma_def newline_def)
  have a2: "\<forall>t. \<not> needs (sample_iso t)"
    by (simp add: sample_iso_def needs_def dquote_def comma_def newline_def)
  have a3: "\<forall>x. \<not> needs (sample_num_str x)"
    by (simp add: sample_num_str_def needs_def dquote_def comma_def newline_def)
  have a4: "\<forall>e \<in> set [entry_noted, entry_a].
              valid_time (e_start e) \<and> (end_given e \<longrightarrow> valid_time (the (e_end e)))"
    by (simp add: entry_noted_def entry_a_def valid_time_def end_given_def)
  have n1: "needs (c_name client_quoted)"
    by (simp add: client_quoted_def needs_def dquote_def comma_def newline_def)
  have n2: "needs (the (e_notes entry_noted))"
    by (simp add: entry_noted_def needs_def dquote_def comma_def newline_def)
  have f: "map (csv_fields sample_iso sample_num_str [client_quoted] [project_plain])
             [entry_noted, entry_a]
           = [[''entry_a1'', c_name client_quoted, ''Site'', ''2024-01-01T00:00:00.000Z'',
               ''2024-01-01T01:00:00.000Z'', ''1'', ''Yes'', the (e_notes entry_noted),
               ''50'', ''50''],
              [''entry_a'', c_name client_quoted, ''Site'', ''1970-01-01T00:00:01.000Z'',
               ''1970-01-01T01:00:01.000Z'', ''1'', ''Yes'', ''design'', ''50'', ''50'']]"
    by code_simp
  from export_round_trip [OF a1 a2 a3 a4, of "[client_quoted]" "[project_plain]"] f n1 n2
  show ?thesis by simp
qed

end
